theory Spec2Isabelle
  imports Complex_Main "HOL-Library.Multiset" "HOL-Library.Product_Lexorder"
begin

section \<open>Errors\<close>

text \<open>
  Every failure the simulator raises itself is a Python \<open>ValueError\<close> carrying a message.
  \<open>IndexError\<close> is raised by \<open>.values[0]\<close> and \<open>.iloc[i]\<close> and is caught by the handlers of
  \<open>get_stop_id\<close> and \<open>get_trip_info\<close>. \<open>AttributeError\<close> is raised by the \<open>.dt\<close> accessor on a
  column that holds no datetime values.
\<close>

datatype error = ValueError string | IndexError | AttributeError string

text \<open>\<open>xs.values[0]\<close>: the first element, \<open>IndexError\<close> on an empty selection.\<close>

definition values0 :: "'a list \<Rightarrow> error + 'a" where
  "values0 xs = (case xs of [] \<Rightarrow> Inl IndexError | x # _ \<Rightarrow> Inr x)"

text \<open>\<open>df.iloc[i]\<close> for a position \<open>i \<ge> 0\<close>: \<open>IndexError\<close> when out of bounds.\<close>

definition iloc :: "'a list \<Rightarrow> nat \<Rightarrow> error + 'a" where
  "iloc xs i = (if i < length xs then Inr (xs ! i) else Inl IndexError)"

text \<open>\<open>try: ... except IndexError: raise ValueError(msg)\<close>: only \<open>IndexError\<close> is converted.\<close>

definition except_IndexError :: "error + 'a \<Rightarrow> string \<Rightarrow> error + 'a" where
  "except_IndexError body msg =
     (case body of
        Inl IndexError \<Rightarrow> Inl (ValueError msg)
      | Inl (ValueError m) \<Rightarrow> Inl (ValueError m)
      | Inl (AttributeError m) \<Rightarrow> Inl (AttributeError m)
      | Inr v \<Rightarrow> Inr v)"

text \<open>Sequencing of two fallible computations: the first exception raised propagates.\<close>

definition and_then :: "error + 'a \<Rightarrow> ('a \<Rightarrow> error + 'b) \<Rightarrow> error + 'b" where
  "and_then m f = (case m of Inl e \<Rightarrow> Inl e | Inr v \<Rightarrow> f v)"

text \<open>
  \<open>series.apply(f)\<close> / \<open>df.apply(f, axis=1)\<close>: \<open>f\<close> is called on the rows in table order; the
  first exception it raises propagates.
\<close>

fun apply_rows :: "('a \<Rightarrow> error + 'b) \<Rightarrow> 'a list \<Rightarrow> error + 'b list" where
  "apply_rows f [] = Inr []"
| "apply_rows f (x # xs) =
     (case f x of
        Inl e \<Rightarrow> Inl e
      | Inr y \<Rightarrow> (case apply_rows f xs of Inl e \<Rightarrow> Inl e | Inr ys \<Rightarrow> Inr (y # ys)))"

section \<open>Floating-point arithmetic\<close>

text \<open>
  Python floats are IEEE doubles. A float is modelled by the real number it denotes;
  infinities and NaN are outside the model. What an operation returns after rounding is
  not fixed here: the operations the code calls (\<open>+\<close>, \<open>-\<close>, \<open>*\<close>, \<open>/\<close>, \<open>**\<close>, the functions of
  \<open>math\<close>, and the norm and dot product of the array library) are the fields of an
  arithmetic, and a property stated for an arithmetic \<open>fl\<close> holds for every one of them.
\<close>

record float_arith =
  fl_add :: "real \<Rightarrow> real \<Rightarrow> real"
  fl_sub :: "real \<Rightarrow> real \<Rightarrow> real"
  fl_mul :: "real \<Rightarrow> real \<Rightarrow> real"
  fl_div :: "real \<Rightarrow> real \<Rightarrow> real"
  fl_pow :: "real \<Rightarrow> nat \<Rightarrow> real"
  fl_radians :: "real \<Rightarrow> real"
  fl_sin :: "real \<Rightarrow> real"
  fl_cos :: "real \<Rightarrow> real"
  fl_sqrt :: "real \<Rightarrow> real"
  fl_atan2 :: "real \<Rightarrow> real \<Rightarrow> real"
  fl_row_norm :: "real list \<Rightarrow> real"
  fl_dot :: "real list \<Rightarrow> real list \<Rightarrow> real"

text \<open>The exact values of \<open>math.radians\<close> and \<open>math.atan2\<close>.\<close>

definition radians :: "real \<Rightarrow> real" where
  "radians x = x * pi / 180"

definition atan2 :: "real \<Rightarrow> real \<Rightarrow> real" where
  "atan2 y x =
     (if 0 < x then arctan (y / x)
      else if x < 0 then (if 0 \<le> y then arctan (y / x) + pi else arctan (y / x) - pi)
      else if 0 < y then pi / 2
      else if y < 0 then - pi / 2
      else 0)"

text \<open>The arithmetic without rounding.\<close>

definition exact_arith :: float_arith where
  "exact_arith =
     \<lparr>fl_add = (\<lambda>x y. x + y),
      fl_sub = (\<lambda>x y. x - y),
      fl_mul = (\<lambda>x y. x * y),
      fl_div = (\<lambda>x y. x / y),
      fl_pow = (\<lambda>x n. x ^ n),
      fl_radians = radians,
      fl_sin = sin,
      fl_cos = cos,
      fl_sqrt = sqrt,
      fl_atan2 = atan2,
      fl_row_norm = (\<lambda>v. sqrt (sum_list (map (\<lambda>a. a * a) v))),
      fl_dot = (\<lambda>x y. sum_list (map (\<lambda>(a, b). a * b) (zip x y)))\<rparr>"

section \<open>Distance and similarity utilities\<close>

text \<open>\<open>math.sqrt\<close> raises \<open>ValueError\<close> on a negative argument.\<close>

definition math_sqrt :: "float_arith \<Rightarrow> real \<Rightarrow> error + real" where
  "math_sqrt fl x =
     (if x < 0 then Inl (ValueError ''math domain error'') else Inr (fl_sqrt fl x))"

text \<open>The term \<open>a\<close> of \<open>calculate_distance\<close>, as the arithmetic computes it.\<close>

definition haversine_a :: "float_arith \<Rightarrow> real \<Rightarrow> real \<Rightarrow> real \<Rightarrow> real \<Rightarrow> real" where
  "haversine_a fl lat1 lon1 lat2 lon2 =
     (let dlat = fl_radians fl (fl_sub fl lat2 lat1);
          dlon = fl_radians fl (fl_sub fl lon2 lon1)
      in fl_add fl
           (fl_pow fl (fl_sin fl (fl_div fl dlat 2)) 2)
           (fl_mul fl
              (fl_mul fl (fl_cos fl (fl_radians fl lat1)) (fl_cos fl (fl_radians fl lat2)))
              (fl_pow fl (fl_sin fl (fl_div fl dlon 2)) 2)))"

definition calculate_distance ::
  "float_arith \<Rightarrow> real \<Rightarrow> real \<Rightarrow> real \<Rightarrow> real \<Rightarrow> error + real" where
  "calculate_distance fl lat1 lon1 lat2 lon2 =
     (let r = 6371;
          a = haversine_a fl lat1 lon1 lat2 lon2
      in and_then (math_sqrt fl a) (\<lambda>sa.
         and_then (math_sqrt fl (fl_sub fl 1 a)) (\<lambda>sb.
         Inr (fl_mul fl (fl_mul fl r 2) (fl_atan2 fl sa sb)))))"

text \<open>
  \<open>sklearn.metrics.pairwise.cosine_similarity\<close> on two \<open>1 \<times> n\<close> matrices, as the library
  documents it: both inputs are validated (at least one feature, equal numbers of
  features), each row is divided by its Euclidean norm, a norm below ten times the
  machine epsilon being replaced by one, and the dot product of the normalised rows is
  returned.
\<close>

definition float_eps :: real where
  "float_eps = 1 / 2 ^ 52"

definition handle_zeros_in_scale :: "real \<Rightarrow> real" where
  "handle_zeros_in_scale n = (if n < 10 * float_eps then 1 else n)"

definition normalize_row :: "float_arith \<Rightarrow> real list \<Rightarrow> real list" where
  "normalize_row fl v = map (\<lambda>a. fl_div fl a (handle_zeros_in_scale (fl_row_norm fl v))) v"

definition cosine_similarity :: "float_arith \<Rightarrow> real list \<Rightarrow> real list \<Rightarrow> error + real" where
  "cosine_similarity fl x y =
     (if length x = 0 \<or> length y = 0
        then Inl (ValueError ''Found array with 0 feature(s) while a minimum of 1 is required.'')
      else if length x \<noteq> length y
        then Inl (ValueError ''Incompatible dimension for X and Y matrices'')
      else Inr (fl_dot fl (normalize_row fl x) (normalize_row fl y)))"

definition calculate_cosine_similarity ::
  "float_arith \<Rightarrow> real list \<Rightarrow> real list \<Rightarrow> error + real" where
  "calculate_cosine_similarity fl vec1 vec2 = cosine_similarity fl vec1 vec2"

section \<open>Positions of extreme values\<close>

text \<open>
  \<open>Series.idxmin\<close> and \<open>Series.idxmax\<close> scan the values once and keep the first position
  holding the best value seen; on an empty series they raise \<open>ValueError\<close>. The tables
  are read with the default \<open>RangeIndex\<close>, so the label returned is the row position.
\<close>

fun scan_best :: "('a \<Rightarrow> 'a \<Rightarrow> bool) \<Rightarrow> 'a \<Rightarrow> nat \<Rightarrow> nat \<Rightarrow> 'a list \<Rightarrow> nat" where
  "scan_best better best bi i [] = bi"
| "scan_best better best bi i (x # xs) =
     (if better x best then scan_best better x i (Suc i) xs
      else scan_best better best bi (Suc i) xs)"

definition idxmin :: "real list \<Rightarrow> error + nat" where
  "idxmin xs =
     (case xs of
        [] \<Rightarrow> Inl (ValueError ''attempt to get argmin of an empty sequence'')
      | x # rest \<Rightarrow> Inr (scan_best (\<lambda>a b. a < b) x 0 1 rest))"

definition idxmax :: "real list \<Rightarrow> error + nat" where
  "idxmax xs =
     (case xs of
        [] \<Rightarrow> Inl (ValueError ''attempt to get argmax of an empty sequence'')
      | x # rest \<Rightarrow> Inr (scan_best (\<lambda>a b. a > b) x 0 1 rest))"

section \<open>Data model\<close>

record stop =
  stop_id :: string
  stop_name :: string
  stop_lat :: real
  stop_lon :: real
  embedding :: "real list"

text \<open>
  A row of \<open>stop_times.txt\<close>. The times and the headsign are optional in the feed: an
  empty cell is read as NaN, modelled as \<open>None\<close>.
\<close>

record stop_time =
  st_trip_id :: string
  st_stop_id :: string
  st_stop_sequence :: int
  st_arrival_time :: "string option"
  st_departure_time :: "string option"
  st_stop_headsign :: "string option"

record calendar_date =
  cd_service_id :: int

record trip =
  t_trip_id :: string
  t_service_id :: int
  t_route_id :: string

type_synonym date = "int \<times> int \<times> int"

text \<open>A timestamp: the calendar date (year, month, day) and the time elapsed since midnight.\<close>

type_synonym timestamp = "date \<times> nat"

text \<open>
  Modelled from the spec: the columns of \<open>L101.csv\<close>, \<open>L102.csv\<close> and \<open>DelayCodeInfo.csv\<close>
  (the files are not part of the sources). The joined record has an operation timestamp,
  a trip id, a corridor id and a nullable delay code that refers to the delay-code table.
\<close>

record l101_row =
  l101_TripId :: string
  l101_OperationDateTime :: timestamp
  l101_CorridorId :: string

record l102_row =
  l102_TripId :: string
  l102_DelayCode :: "string option"

record delay_code_info_row =
  dci_DelayCode :: string
  dci_Description :: string

record delay_log =
  TripId :: string
  OperationDateTime :: timestamp
  CorridorId :: string
  DelayCode :: "string option"
  Description :: "string option"

text \<open>The tables read from \<open>data_dir\<close>; the embedding column is already parsed.\<close>

record gtfs_files =
  calendar_dates :: "calendar_date list"
  trips :: "trip list"
  stop_times :: "stop_time list"
  stops_csv :: "stop list"

text \<open>The three tables read from the folder \<open>Data/L101 and L102 - 2018\<close>.\<close>

record delay_files =
  l101_df :: "l101_row list"
  l102_df :: "l102_row list"
  delay_code_info_df :: "delay_code_info_row list"

record GoAPISimulator =
  stops :: "stop list"
  embedding_model :: "string \<Rightarrow> real list"
  stop_time_clean :: "stop_time list"
  delay_logs_clean_df :: "delay_log list"

section \<open>Loading the data store\<close>

text \<open>
  \<open>pd.merge(left, right, how='left')\<close>: every left row, in order, paired with each right
  row that matches it, or once with an empty right side when none does.
\<close>

definition merge_left :: "('a \<Rightarrow> 'b \<Rightarrow> bool) \<Rightarrow> 'a list \<Rightarrow> 'b list \<Rightarrow> ('a \<times> 'b option) list" where
  "merge_left matches left right =
     concat (map (\<lambda>l. case filter (matches l) right of
                          [] \<Rightarrow> [(l, None)]
                        | ms \<Rightarrow> map (\<lambda>r. (l, Some r)) ms) left)"

definition merge_data ::
  "l101_row list \<Rightarrow> l102_row list \<Rightarrow> delay_code_info_row list \<Rightarrow> delay_log list" where
  "merge_data l101 l102 delay_code_info =
     (let merged = merge_left (\<lambda>a b. l101_TripId a = l102_TripId b) l101 l102;
          delay_code_of = (\<lambda>b. case b of None \<Rightarrow> None | Some b' \<Rightarrow> l102_DelayCode b');
          merged2 = merge_left (\<lambda>(a, b) c. delay_code_of b = Some (dci_DelayCode c))
                      merged delay_code_info
      in map (\<lambda>((a, b), c).
                \<lparr>TripId = l101_TripId a,
                 OperationDateTime = l101_OperationDateTime a,
                 CorridorId = l101_CorridorId a,
                 DelayCode = delay_code_of b,
                 Description = map_option dci_Description c\<rparr>) merged2)"

text \<open>\<open>str.endswith\<close>.\<close>

definition endswith :: "string \<Rightarrow> string \<Rightarrow> bool" where
  "endswith s suffix =
     (length suffix \<le> length s \<and> drop (length s - length suffix) s = suffix)"

definition service_ids_of :: "gtfs_files \<Rightarrow> int \<Rightarrow> int \<Rightarrow> int list" where
  "service_ids_of gtfs start_date end_date =
     map cd_service_id
       (filter (\<lambda>c. cd_service_id c \<ge> start_date \<and> cd_service_id c \<le> end_date)
          (calendar_dates gtfs))"

definition valid_trips_of :: "gtfs_files \<Rightarrow> int \<Rightarrow> int \<Rightarrow> string \<Rightarrow> trip list" where
  "valid_trips_of gtfs start_date end_date corridor =
     filter (\<lambda>t. t_service_id t \<in> set (service_ids_of gtfs start_date end_date)
                  \<and> endswith (t_route_id t) corridor)
       (trips gtfs)"

text \<open>
  The delay-log filter of \<open>__init__\<close>: the window is written as the two literal dates
  \<open>datetime.date(2018, 3, 1)\<close> and \<open>datetime.date(2018, 3, 8)\<close>; the result is sorted by the
  timestamp.
\<close>

definition filter_delay_logs :: "string \<Rightarrow> delay_log list \<Rightarrow> delay_log list" where
  "filter_delay_logs corridor delay_logs =
     sort_key OperationDateTime
       (filter (\<lambda>r. fst (OperationDateTime r) \<ge> (2018, 3, 1)
                    \<and> fst (OperationDateTime r) \<le> (2018, 3, 8)
                    \<and> CorridorId r = corridor
                    \<and> DelayCode r \<noteq> None)
          delay_logs)"

text \<open>
  \<open>GoAPISimulator.__init__\<close>. The arguments \<open>gtfs\<close> and \<open>delays\<close> are the parsed contents of
  the files it reads and \<open>model\<close> is the sentence-embedding model it loads; failures of
  \<open>pd.read_csv\<close> are outside the model. The constructor has no \<open>raise\<close> of its own. When
  \<open>L101.csv\<close> has no data row, its \<open>OperationDateTime\<close> column holds no datetime values and
  the \<open>.dt\<close> accessor of the delay-log filter raises \<open>AttributeError\<close>; the trip tables have
  been filtered by then.
\<close>

definition GoAPISimulator_init ::
  "gtfs_files \<Rightarrow> delay_files \<Rightarrow> (string \<Rightarrow> real list) \<Rightarrow> int \<Rightarrow> int \<Rightarrow> string
     \<Rightarrow> error + GoAPISimulator" where
  "GoAPISimulator_init gtfs delays model start_date end_date corridor =
     (let valid_trips = valid_trips_of gtfs start_date end_date corridor;
          delay_logs = merge_data (l101_df delays) (l102_df delays) (delay_code_info_df delays)
      in if l101_df delays = []
           then Inl (AttributeError ''Can only use .dt accessor with datetimelike values'')
         else
           Inr \<lparr>stops = stops_csv gtfs,
                embedding_model = model,
                stop_time_clean =
                  filter (\<lambda>st. st_trip_id st \<in> set (remdups (map t_trip_id valid_trips)))
                    (stop_times gtfs),
                delay_logs_clean_df = filter_delay_logs corridor delay_logs\<rparr>)"

section \<open>Trip information\<close>

record stop_entry =
  se_stop_sequence :: int
  se_stop_name :: "string option"
  se_arrival_time :: "string option"
  se_departure_time :: "string option"

record trip_info =
  ti_trip_id :: string
  ti_stop_headsign :: "string option"
  ti_origin :: string
  ti_destination :: string
  ti_departure_time :: "string option"
  ti_arrival_time :: "string option"
  ti_stop_sequence :: "stop_entry list"

text \<open>
  \<open>left.merge(right, on='stop_id')\<close>, an inner join: the left rows in order, each paired
  with the stops that carry its \<open>stop_id\<close>.
\<close>

definition merge_on_stop_id :: "stop_time list \<Rightarrow> stop list \<Rightarrow> (stop_time \<times> stop) list" where
  "merge_on_stop_id left right =
     concat (map (\<lambda>l. map (\<lambda>r. (l, r)) (filter (\<lambda>r. stop_id r = st_stop_id l) right)) left)"

definition trip_data_of :: "GoAPISimulator \<Rightarrow> string \<Rightarrow> (stop_time \<times> stop) list" where
  "trip_data_of self full_trip_id =
     merge_on_stop_id
       (filter (\<lambda>st. st_trip_id st = full_trip_id) (stop_time_clean self)) (stops self)"

text \<open>\<open>GroupBy.first()\<close> takes, column by column, the first value of the group that is not null.\<close>

fun first_non_null :: "'a option list \<Rightarrow> 'a option" where
  "first_non_null [] = None"
| "first_non_null (None # xs) = first_non_null xs"
| "first_non_null (Some x # xs) = Some x"

definition row_sequence :: "stop_time \<times> stop \<Rightarrow> int" where
  "row_sequence row = st_stop_sequence (fst row)"

text \<open>
  \<open>trip_data.groupby('stop_sequence').first().iterrows()\<close>: the group keys in ascending
  order, one entry for each.
\<close>

definition groupby_stop_sequence_first :: "(stop_time \<times> stop) list \<Rightarrow> stop_entry list" where
  "groupby_stop_sequence_first trip_data =
     map (\<lambda>seq.
            (let rows = filter (\<lambda>row. row_sequence row = seq) trip_data
             in \<lparr>se_stop_sequence = seq,
                 se_stop_name = first_non_null (map (\<lambda>row. Some (stop_name (snd row))) rows),
                 se_arrival_time = first_non_null (map (\<lambda>row. st_arrival_time (fst row)) rows),
                 se_departure_time = first_non_null (map (\<lambda>row. st_departure_time (fst row)) rows)\<rparr>))
       (sort (remdups (map row_sequence trip_data)))"

text \<open>
  \<open>get_trip_info\<close>. \<open>iloc[0]\<close> and \<open>iloc[-1]\<close> are read after the emptiness check, so \<open>hd\<close>
  and \<open>last\<close> are applied to a non-empty list.
\<close>

definition get_trip_info :: "GoAPISimulator \<Rightarrow> string \<Rightarrow> string \<Rightarrow> string \<Rightarrow> error + trip_info" where
  "get_trip_info self trip_id date corridor =
     (let full_trip_id = date @ ''-'' @ corridor @ ''-'' @ trip_id;
          trip_data = trip_data_of self full_trip_id
      in if trip_data = [] then Inl (ValueError (''Trip ID '' @ full_trip_id @ '' not found.''))
         else
           and_then
             (except_IndexError
                (values0
                   (map (\<lambda>row. st_stop_headsign (fst row))
                      (filter (\<lambda>row. row_sequence row = min_list (map row_sequence trip_data))
                         trip_data)))
                (''Missing stop_headsign for trip '' @ trip_id @ ''.''))
             (\<lambda>headsign.
                Inr \<lparr>ti_trip_id = full_trip_id,
                     ti_stop_headsign = headsign,
                     ti_origin = stop_name (snd (hd trip_data)),
                     ti_destination = stop_name (snd (last trip_data)),
                     ti_departure_time = st_departure_time (fst (hd trip_data)),
                     ti_arrival_time = st_arrival_time (fst (last trip_data)),
                     ti_stop_sequence = groupby_stop_sequence_first trip_data\<rparr>))"

section \<open>Stop lookup\<close>

text \<open>The f-string rendering of \<open>method\<close>: \<open>None\<close> prints as \<open>None\<close>.\<close>

definition format_method :: "string option \<Rightarrow> string" where
  "format_method method = (case method of None \<Rightarrow> ''None'' | Some m \<Rightarrow> m)"

text \<open>
  \<open>get_stop_id\<close>, run on the arithmetic \<open>fl\<close>. The result is \<open>Inr (Some id)\<close> for a returned
  stop id and \<open>Inr None\<close> when the Python function ends without a \<open>return\<close> statement,
  i.e. returns \<open>None\<close>.
\<close>

definition get_stop_id ::
  "float_arith \<Rightarrow> GoAPISimulator \<Rightarrow> string option \<Rightarrow> real option \<Rightarrow> real option
     \<Rightarrow> string option \<Rightarrow> error + string option" where
  "get_stop_id fl self stop_name_arg lat long method =
     except_IndexError
       (if method = None then
          and_then
            (values0 (map stop_id (filter (\<lambda>row. Some (stop_name row) = stop_name_arg) (stops self))))
            (\<lambda>v. Inr (Some v))
        else if method = Some ''embedding_search'' then
          (case stop_name_arg of
             None \<Rightarrow> Inl (ValueError ''stop_name is required for embedding search'')
           | Some name \<Rightarrow>
               (let input_emb = embedding_model self name in
                and_then
                  (apply_rows (\<lambda>x. calculate_cosine_similarity fl input_emb x)
                     (map embedding (stops self))) (\<lambda>sim_scores.
                and_then (idxmax sim_scores) (\<lambda>i.
                and_then (iloc (stops self) i) (\<lambda>row.
                Inr (Some (stop_id row)))))))
        else if method = Some ''geo_search'' then
          (case (lat, long) of
             (Some lat', Some long') \<Rightarrow>
               and_then
                 (apply_rows
                    (\<lambda>row. calculate_distance fl lat' long' (stop_lat row) (stop_lon row))
                    (stops self)) (\<lambda>dist_scores.
               and_then (idxmin dist_scores) (\<lambda>i.
               and_then (iloc (stops self) i) (\<lambda>row.
               Inr (Some (stop_id row)))))
           | _ \<Rightarrow> Inl (ValueError ''Both lat and long are required for geo search''))
        else Inr None)
       (''Stop not found using method: '' @ format_method method)"

section \<open>Next trip\<close>

record next_trip =
  nt_trip_id :: string
  nt_origin :: string
  nt_destination :: string
  nt_departure_time :: string
  nt_arrival_time :: string

definition get_next_available_trip ::
  "GoAPISimulator \<Rightarrow> string \<Rightarrow> string \<Rightarrow> string option \<Rightarrow> next_trip" where
  "get_next_available_trip self o_stop_id d_stop_id time =
     \<lparr>nt_trip_id = ''907'',
      nt_origin = ''Oshawa GO'',
      nt_destination = ''Union Station'',
      nt_departure_time = ''07:42:00'',
      nt_arrival_time = ''08:45:00''\<rparr>"

section \<open>Reference definitions\<close>

text \<open>
  The Haversine distance in kilometres between two points given in degrees, on a sphere
  of radius 6371 km: \<open>d = 2 R atan2(sqrt a, sqrt (1 - a))\<close> with \<open>a\<close> the haversine term, evaluated
  in the arithmetic \<open>fl\<close>. It is defined when neither square root is taken of a negative
  number.
\<close>

definition haversine_km :: "float_arith \<Rightarrow> real \<Rightarrow> real \<Rightarrow> real \<Rightarrow> real \<Rightarrow> real" where
  "haversine_km fl lat1 lon1 lat2 lon2 =
     fl_mul fl (fl_mul fl 6371 2)
       (fl_atan2 fl (fl_sqrt fl (haversine_a fl lat1 lon1 lat2 lon2))
          (fl_sqrt fl (fl_sub fl 1 (haversine_a fl lat1 lon1 lat2 lon2))))"

definition haversine_defined :: "float_arith \<Rightarrow> real \<Rightarrow> real \<Rightarrow> real \<Rightarrow> real \<Rightarrow> bool" where
  "haversine_defined fl lat1 lon1 lat2 lon2 =
     (0 \<le> haversine_a fl lat1 lon1 lat2 lon2
      \<and> 0 \<le> fl_sub fl 1 (haversine_a fl lat1 lon1 lat2 lon2))"

text \<open>
  The cosine similarity of two raw vectors in the arithmetic \<open>fl\<close>: the dot product of the
  vectors after each is divided by its norm.
\<close>

definition similarity :: "float_arith \<Rightarrow> real list \<Rightarrow> real list \<Rightarrow> real" where
  "similarity fl x y = fl_dot fl (normalize_row fl x) (normalize_row fl y)"



text \<open>
  The window the specification words: the configured \<open>start_date\<close> and \<open>end_date\<close>, integers
  of the form YYYYMMDD, read as calendar dates.
\<close>

definition date_of_int :: "int \<Rightarrow> date" where
  "date_of_int n = (n div 10000, (n div 100) mod 100, n mod 100)"

definition in_configured_window :: "int \<Rightarrow> int \<Rightarrow> delay_log \<Rightarrow> bool" where
  "in_configured_window start_date end_date r =
     (date_of_int start_date \<le> fst (OperationDateTime r)
      \<and> fst (OperationDateTime r) \<le> date_of_int end_date)"

text \<open>The condition the constructor applies to a joined delay record.\<close>

definition in_fixed_window :: "string \<Rightarrow> delay_log \<Rightarrow> bool" where
  "in_fixed_window corridor r =
     ((2018, 3, 1) \<le> fst (OperationDateTime r) \<and> fst (OperationDateTime r) \<le> (2018, 3, 8)
      \<and> CorridorId r = corridor \<and> DelayCode r \<noteq> None)"


section \<open>Example data\<close>

text \<open>Two stops on the equator, the first one half-way round the globe from the second.\<close>

definition example_stops :: "stop list" where
  "example_stops =
     [\<lparr>stop_id = ''FAR'', stop_name = ''Antipode'', stop_lat = 0, stop_lon = 180,
       embedding = [0, 1]\<rparr>,
      \<lparr>stop_id = ''NEAR'', stop_name = ''Origin'', stop_lat = 0, stop_lon = 0,
       embedding = [1, 0]\<rparr>]"

definition example_store :: GoAPISimulator where
  "example_store =
     \<lparr>stops = example_stops, embedding_model = (\<lambda>text. [1, 0]), stop_time_clean = [],
      delay_logs_clean_df = []\<rparr>"


text \<open>Delay-log files that hold their header lines only.\<close>

definition empty_delays :: delay_files where
  "empty_delays = \<lparr>l101_df = [], l102_df = [], delay_code_info_df = []\<rparr>"

text \<open>An arithmetic whose sums come out too large by \<open>2 ^ -52\<close>, exact otherwise.\<close>

definition upward_arith :: float_arith where
  "upward_arith = exact_arith\<lparr>fl_add := (\<lambda>x y. x + y + 1 / 2 ^ 52)\<rparr>"


definition example_trip_stops :: "stop list" where
  "example_trip_stops =
     [\<lparr>stop_id = ''OS'', stop_name = ''Oshawa GO'', stop_lat = 43.8708, stop_lon = -78.8847,
       embedding = [0, 1]\<rparr>,
      \<lparr>stop_id = ''UN'', stop_name = ''Union Station'', stop_lat = 43.6453, stop_lon = -79.3806,
       embedding = [1, 0]\<rparr>]"

definition oshawa_row :: stop_time where
  "oshawa_row =
     \<lparr>st_trip_id = ''20180301-LE-907'', st_stop_id = ''OS'', st_stop_sequence = 1,
      st_arrival_time = Some ''07:42:00'', st_departure_time = Some ''07:42:00'',
      st_stop_headsign = Some ''LE - Union Station''\<rparr>"

definition union_row :: stop_time where
  "union_row =
     \<lparr>st_trip_id = ''20180301-LE-907'', st_stop_id = ''UN'', st_stop_sequence = 2,
      st_arrival_time = Some ''08:45:00'', st_departure_time = Some ''08:45:00'',
      st_stop_headsign = Some ''LE - Union Station''\<rparr>"

text \<open>The rows of trip 907 stored with the later stop first.\<close>

definition unordered_store :: GoAPISimulator where
  "unordered_store =
     \<lparr>stops = example_trip_stops, embedding_model = (\<lambda>text. [1, 1]),
      stop_time_clean = [union_row, oshawa_row], delay_logs_clean_df = []\<rparr>"

text \<open>The rows of trip 907 in sequence order, the first one with an empty headsign cell.\<close>

definition missing_headsign_store :: GoAPISimulator where
  "missing_headsign_store =
     \<lparr>stops = example_trip_stops, embedding_model = (\<lambda>text. [1, 1]),
      stop_time_clean = [oshawa_row\<lparr>st_stop_headsign := None\<rparr>, union_row],
      delay_logs_clean_df = []\<rparr>"


definition example_gtfs :: gtfs_files where
  "example_gtfs =
     \<lparr>calendar_dates = [\<lparr>cd_service_id = 20180301\<rparr>, \<lparr>cd_service_id = 20180401\<rparr>],
      trips = [\<lparr>t_trip_id = ''20180301-LE-907'', t_service_id = 20180301, t_route_id = ''01180-LE''\<rparr>],
      stop_times = [oshawa_row, union_row],
      stops_csv = example_trip_stops\<rparr>"

definition example_delays :: delay_files where
  "example_delays =
     \<lparr>l101_df =
        [\<lparr>l101_TripId = ''907'', l101_OperationDateTime = ((2018, 3, 5), 27720),
          l101_CorridorId = ''LE''\<rparr>],
      l102_df = [\<lparr>l102_TripId = ''907'', l102_DelayCode = Some ''SIG''\<rparr>],
      delay_code_info_df = [\<lparr>dci_DelayCode = ''SIG'', dci_Description = ''Signal problem''\<rparr>]\<rparr>"


section \<open>Auxiliary lemmas\<close>

lemma scan_best_correct:
  assumes P1: "\<And>x b p. better x b \<Longrightarrow> \<not> better p b \<Longrightarrow> better x p"
    and P2: "\<And>a b. better a b \<Longrightarrow> \<not> better b a"
    and "length pre = i" and "bi < i" and "best = pre ! bi"
    and "\<forall>j<i. \<not> better (pre ! j) best"
    and "\<forall>j<bi. better best (pre ! j)"
  shows "scan_best better best bi i xs < length (pre @ xs)
     \<and> (\<forall>j<length (pre @ xs). \<not> better ((pre @ xs) ! j) ((pre @ xs) ! scan_best better best bi i xs))
     \<and> (\<forall>j<scan_best better best bi i xs. better ((pre @ xs) ! scan_best better best bi i xs) ((pre @ xs) ! j))"
  using assms(3-)
proof (induction xs arbitrary: pre best bi i)
  case Nil
  then show ?case by simp
next
  case (Cons x xs)
  let ?pre = "pre @ [x]"
  have len: "length ?pre = Suc i" using Cons.prems by simp
  show ?case
  proof (cases "better x best")
    case True
    have a: "i < Suc i" by simp
    have b: "x = ?pre ! i" using Cons.prems(1) by (simp add: nth_append)
    have c: "\<forall>j<Suc i. \<not> better (?pre ! j) x"
    proof (intro allI impI)
      fix j assume "j < Suc i"
      show "\<not> better (?pre ! j) x"
      proof (cases "j = i")
        case True
        then have "?pre ! j = x" using b by simp
        then show ?thesis using P2[of x x] by auto
      next
        case False
        then have "j < i" using \<open>j < Suc i\<close> by simp
        then have "\<not> better (pre ! j) best" using Cons.prems by simp
        then have "better x (pre ! j)" using P1[OF True] by blast
        then have "\<not> better (pre ! j) x" by (rule P2)
        moreover have "?pre ! j = pre ! j" using \<open>j < i\<close> Cons.prems(1) by (simp add: nth_append)
        ultimately show ?thesis by simp
      qed
    qed
    have d: "\<forall>j<i. better x (?pre ! j)"
    proof (intro allI impI)
      fix j assume "j < i"
      then have "\<not> better (pre ! j) best" using Cons.prems by simp
      then have "better x (pre ! j)" using P1[OF True] by blast
      moreover have "?pre ! j = pre ! j" using \<open>j < i\<close> Cons.prems(1) by (simp add: nth_append)
      ultimately show "better x (?pre ! j)" by simp
    qed
    from Cons.IH[OF len a b c d] True show ?thesis by simp
  next
    case False
    have a: "bi < Suc i" using Cons.prems by simp
    have b: "best = ?pre ! bi" using Cons.prems by (simp add: nth_append)
    have c: "\<forall>j<Suc i. \<not> better (?pre ! j) best"
      using Cons.prems False by (auto simp: nth_append less_Suc_eq)
    have d: "\<forall>j<bi. better best (?pre ! j)"
      using Cons.prems by (auto simp: nth_append)
    from Cons.IH[OF len a b c d] False show ?thesis by simp
  qed
qed

lemma idxmin_first_minimum:
  assumes "xs \<noteq> []"
  shows "\<exists>i. idxmin xs = Inr i \<and> i < length xs
     \<and> (\<forall>j<length xs. xs ! i \<le> xs ! j) \<and> (\<forall>j<i. xs ! i < xs ! j)"
proof -
  obtain x rest where xs: "xs = x # rest" using assms by (cases xs) auto
  have "scan_best (\<lambda>a b. a < b) x 0 1 rest < length ([x] @ rest)
     \<and> (\<forall>j<length ([x] @ rest). \<not> (([x] @ rest) ! j) < (([x] @ rest) ! scan_best (\<lambda>a b. a < b) x 0 1 rest))
     \<and> (\<forall>j<scan_best (\<lambda>a b. a < b) x 0 1 rest. (([x] @ rest) ! scan_best (\<lambda>a b. a < b) x 0 1 rest) < (([x] @ rest) ! j))"
    by (rule scan_best_correct[where better="\<lambda>a b. a < b" and pre="[x]"]) auto
  then show ?thesis
    by (simp add: idxmin_def xs not_less)
qed


lemma apply_rows_total:
  assumes "\<forall>x\<in>set xs. f x = Inr (g x)"
  shows "apply_rows f xs = Inr (map g xs)"
  using assms by (induction xs) auto

lemma apply_rows_error:
  assumes "\<forall>x\<in>set xs. f x = Inr (g x) \<or> f x = Inl e"
    and "\<exists>x\<in>set xs. f x = Inl e"
  shows "apply_rows f xs = Inl e"
  using assms
proof (induction xs)
  case Nil
  then show ?case by simp
next
  case (Cons x xs)
  show ?case
  proof (cases "f x = Inl e")
    case True
    then show ?thesis by simp
  next
    case False
    then have fx: "f x = Inr (g x)" using Cons.prems(1) by auto
    have "\<exists>y\<in>set xs. f y = Inl e" using Cons.prems(2) False by auto
    moreover have "\<forall>y\<in>set xs. f y = Inr (g y) \<or> f y = Inl e" using Cons.prems(1) by auto
    ultimately have "apply_rows f xs = Inl e" using Cons.IH by blast
    then show ?thesis by (simp add: fx)
  qed
qed

lemma calculate_distance_cases:
  "calculate_distance fl lat1 lon1 lat2 lon2 =
     (if haversine_defined fl lat1 lon1 lat2 lon2
      then Inr (haversine_km fl lat1 lon1 lat2 lon2)
      else Inl (ValueError ''math domain error''))"
  by (simp add: calculate_distance_def math_sqrt_def and_then_def haversine_defined_def
        haversine_km_def Let_def not_less)

lemma sin_half_squared: "(sin (x / 2))\<^sup>2 = (1 - cos (x::real)) / 2"
  using cos_double_sin[of "x / 2"] by simp

lemma half_versine_plus_product:
  fixes p q :: real
  shows "(1 - cos (q - p)) / 2 + cos p * cos q = (1 + cos (p + q)) / 2"
proof -
  have "cos (q - p) = cos (p - q)" using cos_minus[of "p - q"] by simp
  then show ?thesis by (simp add: cos_times_cos field_simps)
qed

lemma exact_haversine_a:
  "haversine_a exact_arith lat1 lon1 lat2 lon2 =
     (sin (radians (lat2 - lat1) / 2))\<^sup>2
       + cos (radians lat1) * cos (radians lat2) * (sin (radians (lon2 - lon1) / 2))\<^sup>2"
  by (simp add: haversine_a_def exact_arith_def Let_def)

lemma exact_haversine_a_bounds:
  "0 \<le> haversine_a exact_arith lat1 lon1 lat2 lon2 \<and> haversine_a exact_arith lat1 lon1 lat2 lon2 \<le> 1"
proof -
  define p where "p = radians lat1"
  define q where "q = radians lat2"
  define s1 where "s1 = (sin (radians (lat2 - lat1) / 2))\<^sup>2"
  define s2 where "s2 = (sin (radians (lon2 - lon1) / 2))\<^sup>2"
  define k where "k = cos p * cos q"
  have a: "haversine_a exact_arith lat1 lon1 lat2 lon2 = s1 + k * s2"
    by (simp add: exact_haversine_a s1_def s2_def k_def p_def q_def)
  have d: "radians (lat2 - lat1) = q - p"
    by (simp add: radians_def p_def q_def diff_divide_distrib left_diff_distrib)
  have s1: "s1 = (1 - cos (q - p)) / 2"
    by (simp only: s1_def d sin_half_squared)
  have s1k: "s1 + k = (1 + cos (p + q)) / 2"
    by (simp only: s1 k_def half_versine_plus_product)
  have s1_ge: "0 \<le> s1" and s2_ge: "0 \<le> s2" unfolding s1_def s2_def by simp_all
  have s1_le: "s1 \<le> 1" by (simp add: s1)
  have s2_le: "s2 \<le> 1" by (simp add: s2_def sin_half_squared)
  have "- 1 \<le> cos (p + q)" by (rule cos_ge_minus_one)
  then have "0 \<le> 1 + cos (p + q)" by linarith
  then have s1k_ge: "0 \<le> s1 + k" by (simp add: s1k)
  have s1k_le: "s1 + k \<le> 1" by (simp add: s1k)
  show ?thesis
  proof (cases "0 \<le> k")
    case True
    have "0 \<le> k * s2" using True s2_ge by simp
    moreover have "k * s2 \<le> k" using True s2_le by (simp add: mult_left_le)
    ultimately show ?thesis unfolding a using s1_ge s1k_le by linarith
  next
    case False
    then have kn: "k \<le> 0" by simp
    have "k * s2 \<le> 0" using kn s2_ge by (simp add: mult_nonpos_nonneg)
    moreover have "k \<le> k * s2" using kn s2_le mult_left_mono_neg[of s2 1 k] by simp
    ultimately show ?thesis unfolding a using s1_le s1k_ge by linarith
  qed
qed

text \<open>Without rounding no square root is taken of a negative number.\<close>

lemma exact_haversine_defined: "haversine_defined exact_arith lat1 lon1 lat2 lon2"
  using exact_haversine_a_bounds[of lat1 lon1 lat2 lon2]
  by (simp add: haversine_defined_def exact_arith_def)

lemma atan2_sqrt_arcsin:
  assumes "0 \<le> a" and "a \<le> 1"
  shows "atan2 (sqrt a) (sqrt (1 - a)) = arcsin (sqrt a)"
proof (cases "a = 1")
  case True
  then show ?thesis by (simp add: atan2_def)
next
  case False
  then have lt: "a < 1" using assms by simp
  then have pos: "0 < sqrt (1 - a)" by simp
  have "sqrt a < 1" using lt assms by (simp add: real_sqrt_lt_1_iff)
  moreover have "- 1 < sqrt a"
  proof -
    have "0 \<le> sqrt a" using assms by simp
    then show ?thesis by linarith
  qed
  ultimately have "arcsin (sqrt a) = arctan (sqrt a / sqrt (1 - (sqrt a)\<^sup>2))"
    by (rule arcsin_arctan[rotated])
  also have "(sqrt a)\<^sup>2 = a" using assms by simp
  finally show ?thesis using pos by (simp add: atan2_def)
qed

text \<open>Without rounding the distance is the arcsine form of the law of haversines.\<close>

lemma exact_haversine_km:
  "haversine_km exact_arith lat1 lon1 lat2 lon2 =
     2 * 6371 * arcsin (sqrt ((sin (radians (lat2 - lat1) / 2))\<^sup>2
       + cos (radians lat1) * cos (radians lat2) * (sin (radians (lon2 - lon1) / 2))\<^sup>2))"
proof -
  have "atan2 (sqrt (haversine_a exact_arith lat1 lon1 lat2 lon2))
              (sqrt (1 - haversine_a exact_arith lat1 lon1 lat2 lon2))
          = arcsin (sqrt (haversine_a exact_arith lat1 lon1 lat2 lon2))"
    using exact_haversine_a_bounds[of lat1 lon1 lat2 lon2] by (intro atan2_sqrt_arcsin) simp_all
  then have "haversine_km exact_arith lat1 lon1 lat2 lon2
          = 2 * 6371 * arcsin (sqrt (haversine_a exact_arith lat1 lon1 lat2 lon2))"
    by (simp add: haversine_km_def exact_arith_def)
  then show ?thesis by (simp only: exact_haversine_a)
qed

lemma iloc_in_range: "i < length xs \<Longrightarrow> iloc xs i = Inr (xs ! i)"
  by (simp add: iloc_def)

lemma example_distances:
  "haversine_km exact_arith 0 0 0 180 = 6371 * pi" "haversine_km exact_arith 0 0 0 0 = 0"
  by (simp_all add: exact_haversine_km radians_def)

lemma upward_undefined: "\<not> haversine_defined upward_arith 0 0 0 180"
  by (simp add: haversine_defined_def haversine_a_def upward_arith_def exact_arith_def radians_def)



lemma cosine_cases:
  assumes "q \<noteq> []" and "length v = length q"
  shows "calculate_cosine_similarity fl q v = Inr (similarity fl q v)"
  using assms by (auto simp: calculate_cosine_similarity_def cosine_similarity_def similarity_def)

lemma sum_list_all_zero: "\<forall>p\<in>set ps. f p = (0::real) \<Longrightarrow> sum_list (map f ps) = 0"
  by (induction ps) auto

text \<open>
  On an arithmetic whose norm, division and dot product are exact on zeros, as they are
  on IEEE doubles, a zero vector has similarity 0 to every vector.
\<close>

lemma similarity_zero_vector:
  assumes norm0: "\<And>v. \<forall>a\<in>set v. a = 0 \<Longrightarrow> fl_row_norm fl v = 0"
    and div0: "fl_div fl 0 1 = 0"
    and dot0: "\<And>x y. (\<forall>a\<in>set x. a = 0) \<or> (\<forall>b\<in>set y. b = 0) \<Longrightarrow> fl_dot fl x y = 0"
    and zero: "(\<forall>a\<in>set x. a = 0) \<or> (\<forall>b\<in>set y. b = 0)"
  shows "similarity fl x y = 0"
proof -
  have nz: "\<forall>a\<in>set (normalize_row fl v). a = 0" if z: "\<forall>a\<in>set v. a = 0" for v
  proof -
    have "handle_zeros_in_scale (fl_row_norm fl v) = 1"
      by (simp add: norm0[OF z] handle_zeros_in_scale_def float_eps_def)
    then have "normalize_row fl v = map (\<lambda>a. fl_div fl a 1) v" by (simp add: normalize_row_def)
    also have "\<dots> = map (\<lambda>a. 0) v" using z div0 by (intro map_cong) auto
    finally show ?thesis by simp
  qed
  from zero have "(\<forall>a\<in>set (normalize_row fl x). a = 0) \<or> (\<forall>b\<in>set (normalize_row fl y). b = 0)"
    using nz by blast
  then show ?thesis unfolding similarity_def by (rule dot0)
qed

lemma exact_similarity_zero_vector:
  assumes "(\<forall>a\<in>set x. a = 0) \<or> (\<forall>b\<in>set y. b = 0)"
  shows "similarity exact_arith x y = 0"
proof (rule similarity_zero_vector[OF _ _ _ assms])
  show "fl_row_norm exact_arith v = 0" if "\<forall>a\<in>set v. a = 0" for v
    using that by (simp add: exact_arith_def sum_list_all_zero)
  show "fl_div exact_arith 0 1 = 0" by (simp add: exact_arith_def)
  show "fl_dot exact_arith x y = 0" if "(\<forall>a\<in>set x. a = 0) \<or> (\<forall>b\<in>set y. b = 0)" for x y
  proof -
    have "\<forall>p\<in>set (zip x y). (case p of (a, b) \<Rightarrow> a * b) = 0"
      using that by (auto simp: in_set_zip)
    then show ?thesis by (simp add: exact_arith_def sum_list_all_zero)
  qed
qed

text \<open>
  Without rounding, and when neither norm is below the threshold, the similarity is the
  dot product over the product of the norms.
\<close>

lemma sum_list_scaled_products:
  "length x = length y \<Longrightarrow>
   sum_list (map (\<lambda>(a, b). a * b) (zip (map (\<lambda>a. a / n) x) (map (\<lambda>b. b / m) y)))
     = sum_list (map (\<lambda>(a, b). a * b) (zip x y)) / (n * (m::real))"
proof (induction x arbitrary: y)
  case Nil
  then show ?case by simp
next
  case (Cons a x)
  then obtain b y' where y: "y = b # y'" by (cases y) auto
  with Cons.prems have "length x = length y'" by simp
  from Cons.IH[OF this] show ?case by (simp add: y add_divide_distrib)
qed

lemma exact_similarity:
  assumes "length x = length y"
    and "10 * float_eps \<le> sqrt (sum_list (map (\<lambda>a. a * a) x))"
    and "10 * float_eps \<le> sqrt (sum_list (map (\<lambda>a. a * a) y))"
  shows "similarity exact_arith x y
           = sum_list (map (\<lambda>(a, b). a * b) (zip x y))
               / (sqrt (sum_list (map (\<lambda>a. a * a) x)) * sqrt (sum_list (map (\<lambda>a. a * a) y)))"
  using assms(2,3)
  by (simp add: similarity_def normalize_row_def handle_zeros_in_scale_def exact_arith_def
        sum_list_scaled_products[OF assms(1)] not_less[symmetric])


lemma get_trip_info_not_found:
  assumes "stop_time_clean self = []"
  shows "get_trip_info self trip_id date corridor
           = Inl (ValueError (''Trip ID '' @ date @ ''-'' @ corridor @ ''-'' @ trip_id @ '' not found.''))"
  using assms by (simp add: get_trip_info_def trip_data_of_def merge_on_stop_id_def)

lemma example_no_valid_trips: "valid_trips_of example_gtfs 20180301 20180308 ''ST'' = []"
  by (simp add: valid_trips_of_def example_gtfs_def endswith_def)












lemma example_delays_nonempty: "l101_df example_delays \<noteq> []"
  by (simp add: example_delays_def)


section \<open>Properties\<close>

text \<open>
  C1. The claim: for every query point and every non-empty stop table, \<open>get_stop_id\<close> with
  \<open>method = 'geo_search'\<close> returns the stop of least Haversine distance (Earth radius 6371
  km), the first such stop in table order. The code, on every arithmetic: when the
  Haversine distance to every stop is defined, it returns the id of the stop at the first
  position \<open>i\<close> whose distance \<open>haversine_km\<close> to the query point is least (at most that of
  every stop, strictly less than that of every stop before \<open>i\<close>); when rounding puts the
  haversine term of some stop below 0 or above 1, as it does on IEEE doubles for the
  query (2.5, -180) and a stop at (-2.5, 0), \<open>math.sqrt\<close> raises and the call fails with
  the \<open>ValueError\<close> "math domain error".
\<close>

theorem geo_search_first_nearest_or_domain_error:
  assumes "stops self \<noteq> []"
  shows "((\<forall>s\<in>set (stops self). haversine_defined fl lat long (stop_lat s) (stop_lon s)) \<longrightarrow>
            (\<exists>i<length (stops self).
               get_stop_id fl self stop_name_arg (Some lat) (Some long) (Some ''geo_search'')
                 = Inr (Some (stop_id (stops self ! i)))
             \<and> (\<forall>j<length (stops self).
                   haversine_km fl lat long (stop_lat (stops self ! i)) (stop_lon (stops self ! i))
                     \<le> haversine_km fl lat long (stop_lat (stops self ! j)) (stop_lon (stops self ! j))
                 \<and> (j < i \<longrightarrow>
                       haversine_km fl lat long (stop_lat (stops self ! i)) (stop_lon (stops self ! i))
                         < haversine_km fl lat long (stop_lat (stops self ! j)) (stop_lon (stops self ! j))))))
       \<and> (\<not> (\<forall>s\<in>set (stops self). haversine_defined fl lat long (stop_lat s) (stop_lon s)) \<longrightarrow>
            get_stop_id fl self stop_name_arg (Some lat) (Some long) (Some ''geo_search'')
              = Inl (ValueError ''math domain error''))"
proof (intro conjI impI)
  assume ok: "\<forall>s\<in>set (stops self). haversine_defined fl lat long (stop_lat s) (stop_lon s)"
  define d where "d = (\<lambda>row::stop. haversine_km fl lat long (stop_lat row) (stop_lon row))"
  define ds where "ds = map d (stops self)"
  have rows: "apply_rows (\<lambda>row. calculate_distance fl lat long (stop_lat row) (stop_lon row)) (stops self)
                = Inr ds"
    unfolding ds_def d_def by (rule apply_rows_total) (simp add: calculate_distance_cases ok)
  have "ds \<noteq> []" using assms by (simp add: ds_def)
  then obtain i where i: "idxmin ds = Inr i" "i < length ds"
      "\<forall>j<length ds. ds ! i \<le> ds ! j" "\<forall>j<i. ds ! i < ds ! j"
    using idxmin_first_minimum by blast
  have len: "length ds = length (stops self)" by (simp add: ds_def)
  have res: "get_stop_id fl self stop_name_arg (Some lat) (Some long) (Some ''geo_search'')
          = Inr (Some (stop_id (stops self ! i)))"
    using i(2) len
    by (simp add: get_stop_id_def rows i(1) and_then_def iloc_in_range except_IndexError_def)
  have nth: "\<And>j. j < length (stops self) \<Longrightarrow> ds ! j = d (stops self ! j)"
    by (simp add: ds_def)
  have "\<forall>j<length (stops self). d (stops self ! i) \<le> d (stops self ! j)
          \<and> (j < i \<longrightarrow> d (stops self ! i) < d (stops self ! j))"
  proof (intro allI impI)
    fix j assume j: "j < length (stops self)"
    have a: "d (stops self ! i) \<le> d (stops self ! j)"
      using i(2,3) j len nth by metis
    have b: "j < i \<longrightarrow> d (stops self ! i) < d (stops self ! j)"
      using i(2,4) j len nth by metis
    show "d (stops self ! i) \<le> d (stops self ! j) \<and> (j < i \<longrightarrow> d (stops self ! i) < d (stops self ! j))"
      using a b by simp
  qed
  then show "\<exists>i<length (stops self).
               get_stop_id fl self stop_name_arg (Some lat) (Some long) (Some ''geo_search'')
                 = Inr (Some (stop_id (stops self ! i)))
             \<and> (\<forall>j<length (stops self).
                   haversine_km fl lat long (stop_lat (stops self ! i)) (stop_lon (stops self ! i))
                     \<le> haversine_km fl lat long (stop_lat (stops self ! j)) (stop_lon (stops self ! j))
                 \<and> (j < i \<longrightarrow>
                       haversine_km fl lat long (stop_lat (stops self ! i)) (stop_lon (stops self ! i))
                         < haversine_km fl lat long (stop_lat (stops self ! j)) (stop_lon (stops self ! j))))"
    using res i(2) len unfolding d_def by auto
next
  assume bad: "\<not> (\<forall>s\<in>set (stops self). haversine_defined fl lat long (stop_lat s) (stop_lon s))"
  have "apply_rows (\<lambda>row. calculate_distance fl lat long (stop_lat row) (stop_lon row)) (stops self)
          = Inl (ValueError ''math domain error'')"
  proof (rule apply_rows_error[where g = "\<lambda>row. haversine_km fl lat long (stop_lat row) (stop_lon row)"])
    show "\<forall>x\<in>set (stops self).
            calculate_distance fl lat long (stop_lat x) (stop_lon x)
              = Inr (haversine_km fl lat long (stop_lat x) (stop_lon x))
          \<or> calculate_distance fl lat long (stop_lat x) (stop_lon x) = Inl (ValueError ''math domain error'')"
      by (simp add: calculate_distance_cases)
    show "\<exists>x\<in>set (stops self).
            calculate_distance fl lat long (stop_lat x) (stop_lon x) = Inl (ValueError ''math domain error'')"
      using bad by (auto simp: calculate_distance_cases)
  qed
  then show "get_stop_id fl self stop_name_arg (Some lat) (Some long) (Some ''geo_search'')
              = Inl (ValueError ''math domain error'')"
    by (simp add: get_stop_id_def and_then_def except_IndexError_def)
qed

theorem geo_search_first_nearest_or_domain_error_witness:
  "stops example_store \<noteq> []
   \<and> get_stop_id exact_arith example_store None (Some 0) (Some 0) (Some ''geo_search'')
       = Inr (Some ''NEAR'')
   \<and> get_stop_id upward_arith example_store None (Some 0) (Some 0) (Some ''geo_search'')
       = Inl (ValueError ''math domain error'')"
proof -
  have ne: "stops example_store \<noteq> []" by (simp add: example_store_def example_stops_def)
  have ok: "\<forall>s\<in>set (stops example_store). haversine_defined exact_arith 0 0 (stop_lat s) (stop_lon s)"
    by (simp add: exact_haversine_defined)
  from geo_search_first_nearest_or_domain_error[OF ne, of exact_arith 0 0 None] ok
  obtain i where i: "i < length (stops example_store)"
     "get_stop_id exact_arith example_store None (Some 0) (Some 0) (Some ''geo_search'')
        = Inr (Some (stop_id (stops example_store ! i)))"
     "\<forall>j<length (stops example_store).
         haversine_km exact_arith 0 0 (stop_lat (stops example_store ! i)) (stop_lon (stops example_store ! i))
           \<le> haversine_km exact_arith 0 0 (stop_lat (stops example_store ! j)) (stop_lon (stops example_store ! j))
       \<and> (j < i \<longrightarrow>
             haversine_km exact_arith 0 0 (stop_lat (stops example_store ! i)) (stop_lon (stops example_store ! i))
               < haversine_km exact_arith 0 0 (stop_lat (stops example_store ! j)) (stop_lon (stops example_store ! j)))"
    by blast
  have "i = 1"
  proof (rule ccontr)
    assume "i \<noteq> 1"
    then have i0: "i = 0" using i(1) by (simp add: example_store_def example_stops_def)
    have "1 < length (stops example_store)" by (simp add: example_store_def example_stops_def)
    from i(3)[rule_format, OF this]
    have "haversine_km exact_arith 0 0 0 180 \<le> haversine_km exact_arith 0 0 0 0"
      by (simp add: i0 example_store_def example_stops_def)
    then show False using pi_gt_zero by (simp add: example_distances)
  qed
  then have near: "get_stop_id exact_arith example_store None (Some 0) (Some 0) (Some ''geo_search'')
       = Inr (Some ''NEAR'')"
    using i(2) by (simp add: example_store_def example_stops_def)
  have bad: "\<not> (\<forall>s\<in>set (stops example_store).
                 haversine_defined upward_arith 0 0 (stop_lat s) (stop_lon s))"
    using upward_undefined by (simp add: example_store_def example_stops_def)
  from geo_search_first_nearest_or_domain_error[OF ne, of upward_arith 0 0 None] bad
  have "get_stop_id upward_arith example_store None (Some 0) (Some 0) (Some ''geo_search'')
       = Inl (ValueError ''math domain error'')"
    by blast
  then show ?thesis using near ne by simp
qed




text \<open>
  C3. The claim: origin and departure time come from the row with the minimum
  \<open>stop_sequence\<close>, destination and arrival time from the row with the maximum, whatever
  the physical row order. The code on trip 907 stored with the Union Station row (sequence
  2) before the Oshawa GO row (sequence 1): origin and departure time are those of the
  first physical row, destination and arrival time those of the last one.
\<close>

theorem origin_destination_follow_row_order:
  "get_trip_info unordered_store ''907'' ''20180301'' ''LE'' =
     Inr \<lparr>ti_trip_id = ''20180301-LE-907'',
          ti_stop_headsign = Some ''LE - Union Station'',
          ti_origin = ''Union Station'',
          ti_destination = ''Oshawa GO'',
          ti_departure_time = Some ''08:45:00'',
          ti_arrival_time = Some ''07:42:00'',
          ti_stop_sequence =
            [\<lparr>se_stop_sequence = 1, se_stop_name = Some ''Oshawa GO'',
              se_arrival_time = Some ''07:42:00'', se_departure_time = Some ''07:42:00''\<rparr>,
             \<lparr>se_stop_sequence = 2, se_stop_name = Some ''Union Station'',
              se_arrival_time = Some ''08:45:00'', se_departure_time = Some ''08:45:00''\<rparr>]\<rparr>"
  by (simp add: get_trip_info_def trip_data_of_def merge_on_stop_id_def unordered_store_def
        example_trip_stops_def oshawa_row_def union_row_def row_sequence_def
        groupby_stop_sequence_first_def values0_def except_IndexError_def and_then_def)

text \<open>
  C4, as amended. For every input for which the service-date and corridor filter yields
  zero trips, \<open>GoAPISimulator.__init__\<close> raises no error about the empty result: when
  \<open>L101.csv\<close> has at least one data row it completes and produces a store with no
  stop-time rows, on which every later \<open>get_trip_info\<close> raises the "Trip ID ... not found."
  error; when \<open>L101.csv\<close> has no data row it raises the \<open>AttributeError\<close> of the delay-log
  filter, as it does whatever the trips.
\<close>

theorem init_without_trips_completes:
  assumes "valid_trips_of gtfs start_date end_date corridor = []"
  shows "(l101_df delays \<noteq> [] \<longrightarrow>
           (\<exists>store. GoAPISimulator_init gtfs delays model start_date end_date corridor = Inr store
              \<and> stop_time_clean store = []
              \<and> (\<forall>trip_id date c. get_trip_info store trip_id date c
                    = Inl (ValueError (''Trip ID '' @ date @ ''-'' @ c @ ''-'' @ trip_id @ '' not found.'')))))
       \<and> (l101_df delays = [] \<longrightarrow>
           GoAPISimulator_init gtfs delays model start_date end_date corridor
             = Inl (AttributeError ''Can only use .dt accessor with datetimelike values''))"
proof (intro conjI impI)
  assume ne: "l101_df delays \<noteq> []"
  define store where "store =
     \<lparr>stops = stops_csv gtfs, embedding_model = model, stop_time_clean = [],
      delay_logs_clean_df = filter_delay_logs corridor
         (merge_data (l101_df delays) (l102_df delays) (delay_code_info_df delays))\<rparr>"
  have "GoAPISimulator_init gtfs delays model start_date end_date corridor = Inr store"
    using assms ne by (simp add: GoAPISimulator_init_def store_def)
  moreover have "stop_time_clean store = []" by (simp add: store_def)
  ultimately show "\<exists>store. GoAPISimulator_init gtfs delays model start_date end_date corridor = Inr store
              \<and> stop_time_clean store = []
              \<and> (\<forall>trip_id date c. get_trip_info store trip_id date c
                    = Inl (ValueError (''Trip ID '' @ date @ ''-'' @ c @ ''-'' @ trip_id @ '' not found.'')))"
    using get_trip_info_not_found by blast
next
  assume "l101_df delays = []"
  then show "GoAPISimulator_init gtfs delays model start_date end_date corridor
             = Inl (AttributeError ''Can only use .dt accessor with datetimelike values'')"
    by (simp add: GoAPISimulator_init_def)
qed

theorem init_without_trips_completes_witness:
  "valid_trips_of example_gtfs 20180301 20180308 ''ST'' = []
   \<and> l101_df example_delays \<noteq> []
   \<and> (\<exists>store. GoAPISimulator_init example_gtfs example_delays (\<lambda>text. [1, 1]) 20180301 20180308 ''ST''
                 = Inr store
         \<and> get_trip_info store ''907'' ''20180301'' ''LE''
             = Inl (ValueError ''Trip ID 20180301-LE-907 not found.''))
   \<and> GoAPISimulator_init example_gtfs empty_delays (\<lambda>text. [1, 1]) 20180301 20180308 ''ST''
       = Inl (AttributeError ''Can only use .dt accessor with datetimelike values'')"
proof -
  have "l101_df empty_delays = []" by (simp add: empty_delays_def)
  with init_without_trips_completes[OF example_no_valid_trips, of empty_delays "\<lambda>text. [1, 1]"]
  have "GoAPISimulator_init example_gtfs empty_delays (\<lambda>text. [1, 1]) 20180301 20180308 ''ST''
       = Inl (AttributeError ''Can only use .dt accessor with datetimelike values'')"
    by blast
  then show ?thesis
    using init_without_trips_completes[OF example_no_valid_trips, of example_delays "\<lambda>text. [1, 1]"]
      example_no_valid_trips example_delays_nonempty
    by auto
qed

text \<open>C4 as stated fails: with corridor \<open>ST\<close> no trip passes the filter and no error is raised.\<close>

theorem init_without_trips_counterexample:
  "valid_trips_of example_gtfs 20180301 20180308 ''ST'' = []
   \<and> (\<forall>e. GoAPISimulator_init example_gtfs example_delays (\<lambda>text. [1, 1]) 20180301 20180308 ''ST''
            \<noteq> Inl e)"
  by (simp add: example_no_valid_trips GoAPISimulator_init_def example_delays_nonempty)

text \<open>
  C5, as amended. Initialization completes whenever \<open>L101.csv\<close> has at least one data row,
  and after it, with any start date, end date and corridor, the delay-log snapshot holds
  exactly the joined delay records whose operation date lies in the fixed window from
  2018-03-01 to 2018-03-08, whose corridor equals the configured corridor and whose delay
  code is non-null, sorted ascending by operation timestamp; the configured start and end
  dates play no part.
\<close>

theorem delay_logs_fixed_window:
  assumes "l101_df delays \<noteq> []"
  shows "\<exists>store. GoAPISimulator_init gtfs delays model start_date end_date corridor = Inr store
     \<and> mset (delay_logs_clean_df store)
         = filter_mset (in_fixed_window corridor)
             (mset (merge_data (l101_df delays) (l102_df delays) (delay_code_info_df delays)))
     \<and> sorted (map OperationDateTime (delay_logs_clean_df store))"
proof -
  have "in_fixed_window corridor
          = (\<lambda>r. fst (OperationDateTime r) \<ge> (2018, 3, 1) \<and> fst (OperationDateTime r) \<le> (2018, 3, 8)
                 \<and> CorridorId r = corridor \<and> DelayCode r \<noteq> None)"
    by (rule ext) (simp add: in_fixed_window_def)
  then have "filter_delay_logs corridor logs
          = sort_key OperationDateTime (filter (in_fixed_window corridor) logs)" for logs
    by (simp only: filter_delay_logs_def)
  then show ?thesis
    using assms by (simp add: GoAPISimulator_init_def)
qed

theorem delay_logs_fixed_window_witness:
  "l101_df example_delays \<noteq> []
   \<and> (\<exists>store. GoAPISimulator_init example_gtfs example_delays (\<lambda>text. [1, 1]) 20180401 20180408 ''LE''
                 = Inr store
         \<and> map TripId (delay_logs_clean_df store) = [''907'']
         \<and> sorted (map OperationDateTime (delay_logs_clean_df store)))"
proof -
  from delay_logs_fixed_window[OF example_delays_nonempty, of example_gtfs "\<lambda>text. [1, 1]" 20180401 20180408 "''LE''"]
  obtain store where s:
    "GoAPISimulator_init example_gtfs example_delays (\<lambda>text. [1, 1]) 20180401 20180408 ''LE'' = Inr store"
    "mset (delay_logs_clean_df store)
       = filter_mset (in_fixed_window ''LE'')
           (mset (merge_data (l101_df example_delays) (l102_df example_delays)
                    (delay_code_info_df example_delays)))"
    "sorted (map OperationDateTime (delay_logs_clean_df store))"
    by blast
  from s(2) have "mset (map TripId (delay_logs_clean_df store)) = {#''907''#}"
    by (simp add: merge_data_def merge_left_def example_delays_def in_fixed_window_def
          flip: mset_map)
  then have "map TripId (delay_logs_clean_df store) = [''907'']" by (simp only: mset_single_iff)
  then show ?thesis using s(1,3) example_delays_nonempty by simp
qed

text \<open>
  C5 as stated fails: initialised with the window 20180401 to 20180408, the snapshot
  holds a record of 2018-03-05, which lies outside the configured window.
\<close>

theorem delay_logs_configured_window_counterexample:
  "\<exists>store r. GoAPISimulator_init example_gtfs example_delays (\<lambda>text. [1, 1]) 20180401 20180408 ''LE''
                = Inr store
     \<and> r \<in> set (delay_logs_clean_df store)
     \<and> fst (OperationDateTime r) = (2018, 3, 5)
     \<and> \<not> in_configured_window 20180401 20180408 r"
  by (simp add: GoAPISimulator_init_def filter_delay_logs_def merge_data_def merge_left_def
        example_delays_def in_configured_window_def date_of_int_def)

text \<open>
  C6. The claim: every call of \<open>get_stop_id\<close> returns a stop identifier of the table or
  raises. The code at a method other than \<open>None\<close>, \<open>'embedding_search'\<close> and \<open>'geo_search'\<close>:
  no branch is taken, no exception is raised and the function returns \<open>None\<close>, on every
  arithmetic.
\<close>

theorem get_stop_id_unknown_method_returns_None:
  "get_stop_id fl self stop_name_arg lat long (Some ''fuzzy_search'') = Inr None"
  by (simp add: get_stop_id_def except_IndexError_def)

text \<open>
  C7, as amended. For every pair of vectors of equal, non-zero length of which at least
  one is the zero vector, \<open>calculate_cosine_similarity\<close> raises nothing and returns the
  number 0: the norm of a zero vector is replaced by one before the division. The theorem
  is stated for the arithmetic without rounding; \<open>similarity_zero_vector\<close> gives the same
  value on every arithmetic that is exact on zeros.
\<close>

theorem cosine_similarity_zero_vector_is_zero:
  assumes "vec1 \<noteq> []" and "length vec1 = length vec2"
    and "(\<forall>a\<in>set vec1. a = 0) \<or> (\<forall>b\<in>set vec2. b = 0)"
  shows "calculate_cosine_similarity exact_arith vec1 vec2 = Inr 0"
  using assms(1,2) exact_similarity_zero_vector[OF assms(3)]
  by (simp add: cosine_cases)

theorem cosine_similarity_zero_vector_is_zero_witness:
  "[1, 2] \<noteq> ([]::real list) \<and> length [1, 2 :: real] = length [0, 0 :: real]
   \<and> calculate_cosine_similarity exact_arith [1, 2] [0, 0] = Inr 0"
  using cosine_similarity_zero_vector_is_zero[of "[1, 2]" "[0, 0]"] by simp

text \<open>C7 as stated fails: the zero vector against \<open>[3, 4]\<close> yields the number 0, not an error.\<close>

theorem cosine_similarity_zero_vector_counterexample:
  "calculate_cosine_similarity exact_arith [0, 0] [3, 4] = Inr 0"
  by (simp add: calculate_cosine_similarity_def cosine_similarity_def exact_arith_def
        normalize_row_def handle_zeros_in_scale_def float_eps_def)

text \<open>
  C8. The claim: \<open>get_trip_info\<close> fails when the minimum-sequence row lacks a headsign.
  The code on trip 907 whose first row has an empty headsign cell: the lookup
  \<open>.values[0]\<close> succeeds, nothing is raised and the result carries the missing value.
\<close>

theorem missing_headsign_is_returned:
  "get_trip_info missing_headsign_store ''907'' ''20180301'' ''LE'' =
     Inr \<lparr>ti_trip_id = ''20180301-LE-907'',
          ti_stop_headsign = None,
          ti_origin = ''Oshawa GO'',
          ti_destination = ''Union Station'',
          ti_departure_time = Some ''07:42:00'',
          ti_arrival_time = Some ''08:45:00'',
          ti_stop_sequence =
            [\<lparr>se_stop_sequence = 1, se_stop_name = Some ''Oshawa GO'',
              se_arrival_time = Some ''07:42:00'', se_departure_time = Some ''07:42:00''\<rparr>,
             \<lparr>se_stop_sequence = 2, se_stop_name = Some ''Union Station'',
              se_arrival_time = Some ''08:45:00'', se_departure_time = Some ''08:45:00''\<rparr>]\<rparr>"
  by (simp add: get_trip_info_def trip_data_of_def merge_on_stop_id_def missing_headsign_store_def
        example_trip_stops_def oshawa_row_def union_row_def row_sequence_def
        groupby_stop_sequence_first_def values0_def except_IndexError_def and_then_def)




text \<open>
  C10. For every store, every pair of stop identifiers and every time argument,
  \<open>get_next_available_trip\<close> returns the same fixed record: trip 907 from Oshawa GO to
  Union Station, departing 07:42:00 and arriving 08:45:00.
\<close>

theorem next_available_trip_constant:
  "get_next_available_trip self o_stop_id d_stop_id time =
     \<lparr>nt_trip_id = ''907'', nt_origin = ''Oshawa GO'', nt_destination = ''Union Station'',
      nt_departure_time = ''07:42:00'', nt_arrival_time = ''08:45:00''\<rparr>
   \<and> get_next_available_trip self o_stop_id d_stop_id time =
       get_next_available_trip self' o_stop_id' d_stop_id' time'"
  by (simp add: get_next_available_trip_def)

end
